theory Spec2Isabelle
  imports Main "HOL-Library.Word" "HOL-Library.Sublist"
begin

section \<open>Remapped snapshots for user namespaces (snapshotter\_opts\_unix.go)\<close>

text \<open>
  A shallow embedding of \<^verbatim>\<open>withRemappedSnapshotBase\<close>, its four public wrappers,
  \<^verbatim>\<open>remapRootFS\<close> and the walk callback \<^verbatim>\<open>chown\<close>. Go's \<^verbatim>\<open>error\<close> results are values of
  the datatype \<open>error\<close>; a call that returns \<^verbatim>\<open>(T, error)\<close> is a sum \<open>error + T\<close>, a
  call that returns only an \<^verbatim>\<open>error\<close> is an \<open>error option\<close> (\<open>None\<close> is \<^verbatim>\<open>nil\<close>). The
  snapshotter, the client and the mount helper are interfaces of other packages: they are
  parameters of the model, records of operations over a state \<open>'s\<close> that every call
  threads through.
\<close>

subsection \<open>Errors\<close>

text \<open>
  The error classes of the errdefs package that the code tells apart, a catch-all for every
  other failure, an error that wraps another one under a message (\<^verbatim>\<open>fmt.Errorf\<close> with
  \<^verbatim>\<open>%w\<close>), and the run-time panic of a nil dereference. \<^verbatim>\<open>errdefs.IsNotFound\<close> looks through
  the wrapping.
\<close>

datatype error =
    ErrNotFound string
  | ErrAlreadyExists string
  | ErrOther string
  | ErrWrapped string error
  | Panic string

fun IsNotFound :: "error \<Rightarrow> bool" where
  "IsNotFound (ErrNotFound m) = True"
| "IsNotFound (ErrAlreadyExists m) = False"
| "IsNotFound (ErrOther m) = False"
| "IsNotFound (ErrWrapped m e) = IsNotFound e"
| "IsNotFound (Panic m) = False"

subsection \<open>Identity mappings (package idtools)\<close>

record IDMap =
  ContainerID :: int
  HostID :: int
  Size :: int

record Identity =
  UID :: int
  GID :: int

record IdentityMapping =
  UIDMaps :: "IDMap list"
  GIDMaps :: "IDMap list"

text \<open>
  Modelled from the spec: the Ownership Translator of package idtools (\<^verbatim>\<open>ToHost\<close>,
  \<^verbatim>\<open>RootPair\<close>), whose source is not part of the files at hand. Section 4.1: each axis is
  looked up in its own range list, the first range that covers the value wins, the result
  is \<open>hostStart + (value - containerStart)\<close>, and a value that no range covers is an
  error.
\<close>

fun toHost :: "int \<Rightarrow> IDMap list \<Rightarrow> error + int" where
  "toHost contID [] = Inl (ErrOther ''container ID cannot be mapped to a host ID'')"
| "toHost contID (m # ms) =
     (if ContainerID m \<le> contID \<and> contID < ContainerID m + Size m
      then Inr (HostID m + (contID - ContainerID m))
      else toHost contID ms)"

definition ToHost :: "IdentityMapping \<Rightarrow> Identity \<Rightarrow> error + Identity" where
  "ToHost idmap pair =
     (case toHost (UID pair) (UIDMaps idmap) of
        Inl err \<Rightarrow> Inl err
      | Inr uid \<Rightarrow>
          (case toHost (GID pair) (GIDMaps idmap) of
             Inl err \<Rightarrow> Inl err
           | Inr gid \<Rightarrow> Inr \<lparr>UID = uid, GID = gid\<rparr>))"

text \<open>
  Modelled from the spec: the root pair, the host-side identity of container-side
  \<open>(0, 0)\<close> (section 3). \<^verbatim>\<open>RootPair\<close> returns an identity and no error; the spec does not
  say what it is when \<open>0\<close> is unmapped, and the pair \<open>(-1, -1)\<close> stands for that case here.
\<close>

definition RootPair :: "IdentityMapping \<Rightarrow> Identity" where
  "RootPair idmap =
     (case ToHost idmap \<lparr>UID = 0, GID = 0\<rparr> of
        Inl err \<Rightarrow> \<lparr>UID = - 1, GID = - 1\<rparr>
      | Inr h \<Rightarrow> h)"

subsection \<open>Formatting (package fmt)\<close>

text \<open>
  \<^verbatim>\<open>fmt.Sprintf\<close> for the operands this file passes, strings and integers, and for
  format strings without flags or widths. The verbs \<^verbatim>\<open>%s\<close>, \<^verbatim>\<open>%d\<close> and \<^verbatim>\<open>%v\<close> are rendered
  as Go renders them; any other verb is rendered as Go renders a verb that does not fit
  its operand, a verb without operand as \<^verbatim>\<open>%!v(MISSING)\<close>, and operands left over as
  \<^verbatim>\<open>%!(EXTRA ...)\<close>. \<open>digit\<close> is applied to numbers below ten only.
\<close>

datatype arg = S string | D int

definition digit :: "nat \<Rightarrow> char" where
  "digit n = ''0123456789'' ! n"

fun digits :: "nat \<Rightarrow> string" where
  "digits n = (if n < 10 then [digit n] else digits (n div 10) @ [digit (n mod 10)])"

definition FormatInt :: "int \<Rightarrow> string" where
  "FormatInt i = (if i < 0 then CHR ''-'' # digits (nat (- i)) else digits (nat i))"

fun operand :: "arg \<Rightarrow> string" where
  "operand (S s) = ''string='' @ s"
| "operand (D i) = ''int='' @ FormatInt i"

fun verb :: "char \<Rightarrow> arg \<Rightarrow> string" where
  "verb c (S s) =
     (if c = CHR ''s'' \<or> c = CHR ''v'' then s else ''%!'' @ [c] @ ''('' @ operand (S s) @ '')'')"
| "verb c (D i) =
     (if c = CHR ''d'' \<or> c = CHR ''v'' then FormatInt i
      else ''%!'' @ [c] @ ''('' @ operand (D i) @ '')'')"

fun operands :: "arg list \<Rightarrow> string" where
  "operands [] = []"
| "operands [a] = operand a"
| "operands (a # b # as) = operand a @ '', '' @ operands (b # as)"

fun extra :: "arg list \<Rightarrow> string" where
  "extra [] = []"
| "extra (a # as) = ''%!(EXTRA '' @ operands (a # as) @ '')''"

fun Sprintf :: "string \<Rightarrow> arg list \<Rightarrow> string" where
  "Sprintf [] args = extra args"
| "Sprintf [c] args = (if c = CHR ''%'' then ''%!(NOVERB)'' else [c]) @ extra args"
| "Sprintf (c # v # fmt) [] =
     (if c = CHR ''%''
      then (if v = CHR ''%'' then CHR ''%'' # Sprintf fmt []
            else ''%!'' @ [v] @ ''(MISSING)'' @ Sprintf fmt [])
      else c # Sprintf (v # fmt) [])"
| "Sprintf (c # v # fmt) (a # as) =
     (if c = CHR ''%''
      then (if v = CHR ''%'' then CHR ''%'' # Sprintf fmt (a # as)
            else verb v a @ Sprintf fmt as)
      else c # Sprintf (v # fmt) (a # as))"

subsection \<open>The cache key\<close>

text \<open>
  Lines 156 and 157 of \<^verbatim>\<open>withRemappedSnapshotBase\<close>: the key under which the remapped
  artifact is committed, from the parent's chain identity and the mapping's root pair.
\<close>

definition usernsID :: "string \<Rightarrow> IdentityMapping \<Rightarrow> string" where
  "usernsID parent idmap =
     (let rootMap = RootPair idmap
      in Sprintf ''%s-%d-%d'' [S parent, D (UID rootMap), D (GID rootMap)])"

subsection \<open>The filesystem seen by the walk\<close>

text \<open>
  The only filesystem mutation of this file is \<^verbatim>\<open>os.Lchown\<close>. The model therefore keeps
  the directory structure immutable: \<open>layout\<close> gives, for a mount point, the tree found
  there (directory listings in the lexical order in which \<^verbatim>\<open>filepath.Walk\<close> reads them;
  \<open>Unreadable\<close> is a directory whose listing cannot be read), and \<open>owners\<close> is the mutable
  part, the owner of the inode found at each path. A path without owner record is one that
  \<^verbatim>\<open>lstat\<close> fails on. A symbolic link is an inode of its own, with an owner of its own;
  \<open>Symlink p\<close> is a link that resolves to the file at the absolute path \<open>p\<close>, whatever
  text the link holds. \<open>refused\<close> says which changes of owner the kernel refuses, and with
  which error (\<^verbatim>\<open>EPERM\<close>, \<^verbatim>\<open>EROFS\<close>, \<^verbatim>\<open>EINVAL\<close>): it depends on the path and on the ids asked
  for, and no operation of this file changes it.
\<close>

record Stat_t =
  Uid :: "32 word"
  Gid :: "32 word"

datatype entry =
    Regular
  | Symlink string
  | Directory "(string \<times> entry) list"
  | Unreadable error

record fsys =
  layout :: "string \<rightharpoonup> entry"
  owners :: "string \<rightharpoonup> Stat_t"
  refused :: "string \<Rightarrow> int \<Rightarrow> int \<Rightarrow> error option"

record FileInfo =
  IsDir :: bool
  Sys :: Stat_t

type_synonym WalkFunc = "string \<Rightarrow> FileInfo option \<Rightarrow> error option \<Rightarrow> fsys \<Rightarrow> error option \<times> fsys"

fun is_dir :: "entry \<Rightarrow> bool" where
  "is_dir Regular = False"
| "is_dir (Symlink target) = False"
| "is_dir (Directory es) = True"
| "is_dir (Unreadable err) = True"

text \<open>
  \<^verbatim>\<open>os.Lstat\<close>: the metadata of the entry itself; a symbolic link is not followed. What it
  reports as \<^verbatim>\<open>IsDir\<close> is the kind of the entry in the tree, and \<open>walk\<close> below branches on
  that kind.
\<close>

definition lstat :: "string \<Rightarrow> entry \<Rightarrow> fsys \<Rightarrow> error + FileInfo" where
  "lstat path e fs =
     (case owners fs path of
        None \<Rightarrow> Inl (ErrOther (''lstat '' @ path @ '': no such file or directory''))
      | Some st \<Rightarrow> Inr \<lparr>IsDir = is_dir e, Sys = st\<rparr>)"

text \<open>
  \<^verbatim>\<open>os.Lchown\<close>: changes the owner of the named inode; when that inode is a symbolic link
  it is the link that changes, never the file it resolves to. The call fails when the path
  does not exist and when the kernel refuses the change. The kernel reads each id modulo
  \<open>2^32\<close>; the id \<open>2^32 - 1\<close>, which is what \<open>-1\<close> becomes, leaves that id as it is.
\<close>

definition chown_id :: "int \<Rightarrow> 32 word \<Rightarrow> 32 word" where
  "chown_id n old = (if n mod 4294967296 = 4294967295 then old else word_of_int n)"

definition Lchown :: "string \<Rightarrow> int \<Rightarrow> int \<Rightarrow> fsys \<Rightarrow> error option \<times> fsys" where
  "Lchown path uid gid fs =
     (case owners fs path of
        None \<Rightarrow> (Some (ErrOther (''lchown '' @ path @ '': no such file or directory'')), fs)
      | Some st \<Rightarrow>
          (case refused fs path uid gid of
             Some err \<Rightarrow> (Some err, fs)
           | None \<Rightarrow>
               (None, fs\<lparr>owners := (owners fs)(path \<mapsto>
                  \<lparr>Uid = chown_id uid (Uid st), Gid = chown_id gid (Gid st)\<rparr>)\<rparr>)))"

text \<open>\<^verbatim>\<open>filepath.Join\<close> of a clean directory path and an entry name.\<close>

definition Join :: "string \<Rightarrow> string \<Rightarrow> string" where
  "Join path name = path @ ''/'' @ name"

text \<open>
  \<^verbatim>\<open>filepath.Walk\<close> and its helper \<^verbatim>\<open>walk\<close> (Go's path/filepath): the callback is called
  for the root and then for every entry below it, a directory before its entries, the
  entries in the order of the listing. A symbolic link is reported and never entered. A
  directory whose listing cannot be read is reported once, with the read error, and the
  callback's answer is the answer of the walk for it. An entry whose \<^verbatim>\<open>lstat\<close> fails is
  reported with that error and no \<^verbatim>\<open>FileInfo\<close>. The first error a callback returns ends
  the walk. (\<^verbatim>\<open>filepath.SkipDir\<close> is not among the errors of this model: \<^verbatim>\<open>chown\<close> never
  returns it.)
\<close>

fun walk :: "string \<Rightarrow> entry \<Rightarrow> FileInfo \<Rightarrow> WalkFunc \<Rightarrow> fsys \<Rightarrow> error option \<times> fsys"
  and walk_names :: "string \<Rightarrow> (string \<times> entry) list \<Rightarrow> WalkFunc \<Rightarrow> fsys \<Rightarrow> error option \<times> fsys"
where
  "walk path Regular info walkFn fs = walkFn path (Some info) None fs"
| "walk path (Symlink target) info walkFn fs = walkFn path (Some info) None fs"
| "walk path (Unreadable err) info walkFn fs = walkFn path (Some info) (Some err) fs"
| "walk path (Directory es) info walkFn fs =
     (case walkFn path (Some info) None fs of
        (Some err1, fs1) \<Rightarrow> (Some err1, fs1)
      | (None, fs1) \<Rightarrow> walk_names path es walkFn fs1)"
| "walk_names path [] walkFn fs = (None, fs)"
| "walk_names path ((name, e) # rest) walkFn fs =
     (case lstat (Join path name) e fs of
        Inl err \<Rightarrow>
          (case walkFn (Join path name) None (Some err) fs of
             (Some err1, fs1) \<Rightarrow> (Some err1, fs1)
           | (None, fs1) \<Rightarrow> walk_names path rest walkFn fs1)
      | Inr fileInfo \<Rightarrow>
          (case walk (Join path name) e fileInfo walkFn fs of
             (Some err1, fs1) \<Rightarrow> (Some err1, fs1)
           | (None, fs1) \<Rightarrow> walk_names path rest walkFn fs1))"

definition Walk :: "string \<Rightarrow> WalkFunc \<Rightarrow> fsys \<Rightarrow> error option \<times> fsys" where
  "Walk root walkFn fs =
     (case layout fs root of
        None \<Rightarrow> walkFn root None (Some (ErrOther (''lstat '' @ root @ '': no such file or directory''))) fs
      | Some e \<Rightarrow>
          (case lstat root e fs of
             Inl err \<Rightarrow> walkFn root None (Some err) fs
           | Inr info \<Rightarrow> walk root e info walkFn fs))"

subsection \<open>The walk callback\<close>

text \<open>
  \<^verbatim>\<open>chown\<close>, lines 207 to 219. A \<^verbatim>\<open>nil\<close> \<^verbatim>\<open>FileInfo\<close> together with a \<^verbatim>\<open>nil\<close> error would be
  a nil dereference at line 212; \<^verbatim>\<open>filepath.Walk\<close> never calls the callback so.
\<close>

definition chown :: "string \<Rightarrow> IdentityMapping \<Rightarrow> WalkFunc" where
  "chown root idmap path info err fs =
     (case err of
        Some e \<Rightarrow> (Some e, fs)
      | None \<Rightarrow>
          (case info of
             None \<Rightarrow> (Some (Panic ''invalid memory address or nil pointer dereference''), fs)
           | Some fi \<Rightarrow>
               (let stat = Sys fi
                in case ToHost idmap \<lparr>UID = uint (Uid stat), GID = uint (Gid stat)\<rparr> of
                     Inl cerr \<Rightarrow> (Some cerr, fs)
                   | Inr h \<Rightarrow> Lchown path (UID h) (GID h) fs)))"

subsection \<open>Snapshots, the client and the container record\<close>

datatype Kind = KindView | KindActive | KindCommitted

record Info =
  Kind :: Kind
  Parent :: string

record Mount =
  Type :: string
  Source :: string
  Options :: "string list"

text \<open>
  The interface \<^verbatim>\<open>snapshots.Snapshotter\<close>, as far as this file calls it:
  \<^verbatim>\<open>Stat(key)\<close>, \<^verbatim>\<open>Prepare(key, parent)\<close>, \<^verbatim>\<open>View(key, parent)\<close>, \<^verbatim>\<open>Commit(name, key)\<close> and
  \<^verbatim>\<open>Remove(key)\<close>, each a transition of the store's state \<open>'s\<close>.
\<close>

record 's Snapshotter =
  Stat :: "string \<Rightarrow> 's \<Rightarrow> (error + Info) \<times> 's"
  Prepare :: "string \<Rightarrow> string \<Rightarrow> 's \<Rightarrow> (error + Mount list) \<times> 's"
  View :: "string \<Rightarrow> string \<Rightarrow> 's \<Rightarrow> (error + Mount list) \<times> 's"
  Commit :: "string \<Rightarrow> string \<Rightarrow> 's \<Rightarrow> error option \<times> 's"
  Remove :: "string \<Rightarrow> 's \<Rightarrow> error option \<times> 's"

text \<open>
  The image handle: its name and what resolving its root filesystem against the client's
  content store and platform gives (the diff IDs, or an error).
\<close>

record image =
  Name :: string
  RootFS :: "error + string list"

text \<open>
  The client methods called here. \<^verbatim>\<open>resolveSnapshotterName\<close> returns a name and an
  error, and line 159 stores the name before it looks at the error.
\<close>

record 's Client =
  resolveSnapshotterName :: "string \<Rightarrow> string \<times> error option"
  getSnapshotter :: "string \<Rightarrow> error + 's Snapshotter"

text \<open>
  The package-level functions of other packages: \<^verbatim>\<open>identity.ChainID(diffIDs).String()\<close>
  and \<^verbatim>\<open>mount.WithTempMount\<close>, which runs a callback on the filesystem with the mounts
  made visible under a temporary root.
\<close>

record 's Packages =
  ChainID :: "string list \<Rightarrow> string"
  WithTempMount :: "Mount list \<Rightarrow> (string \<Rightarrow> fsys \<Rightarrow> error option \<times> fsys) \<Rightarrow> 's \<Rightarrow> error option \<times> 's"

text \<open>The fields of \<^verbatim>\<open>containers.Container\<close> that this file reads or writes, and its ID.\<close>

record Container =
  ID :: string
  Image :: string
  Snapshotter :: string
  SnapshotKey :: string

type_synonym 's NewContainerOpts = "'s Client \<Rightarrow> Container \<Rightarrow> 's \<Rightarrow> error option \<times> Container \<times> 's"

subsection \<open>The provisioning operation\<close>

text \<open>\<^verbatim>\<open>remapRootFS\<close>, lines 201 to 205.\<close>

definition remapRootFS :: "'s Packages \<Rightarrow> Mount list \<Rightarrow> IdentityMapping \<Rightarrow> 's \<Rightarrow> error option \<times> 's" where
  "remapRootFS pkgs mounts idmap s =
     WithTempMount pkgs mounts (\<lambda>root. Walk root (chown root idmap)) s"

text \<open>
  Lines 176 to 197 of \<^verbatim>\<open>withRemappedSnapshotBase\<close>: the part of the body that control
  reaches when the \<^verbatim>\<open>if\<close> of line 167 is not taken, or is left without a \<^verbatim>\<open>return\<close>.
  Here and below \<open>id'\<close> is the source's parameter \<^verbatim>\<open>id\<close>, and \<open>key\<close> is the value of its
  variable \<^verbatim>\<open>usernsID\<close>. The container is passed by pointer in the source; the model
  returns it with every result, so that what a failing run has written to it is visible.
\<close>

definition buildRemapped ::
  "'s Packages \<Rightarrow> 's Snapshotter \<Rightarrow> string \<Rightarrow> image \<Rightarrow> IdentityMapping \<Rightarrow> bool \<Rightarrow>
   string \<Rightarrow> string \<Rightarrow> Container \<Rightarrow> 's \<Rightarrow> error option \<times> Container \<times> 's" where
  "buildRemapped pkgs snapshotter id' i idmap readonly key parent c s =
     (case Prepare snapshotter (key @ ''-remap'') parent s of
        (Inl err, s1) \<Rightarrow> (Some err, c, s1)
      | (Inr mounts, s1) \<Rightarrow>
          (case remapRootFS pkgs mounts idmap s1 of
             (Some err, s2) \<Rightarrow>
               (case Remove snapshotter key s2 of
                  (ignored, s3) \<Rightarrow> (Some err, c, s3))
           | (None, s2) \<Rightarrow>
               (case Commit snapshotter key (key @ ''-remap'') s2 of
                  (Some err, s3) \<Rightarrow> (Some err, c, s3)
                | (None, s3) \<Rightarrow>
                    (case (if readonly then View snapshotter id' key s3
                           else Prepare snapshotter id' key s3) of
                       (Inl err, s4) \<Rightarrow> (Some err, c, s4)
                     | (Inr ms, s4) \<Rightarrow>
                         (None, c\<lparr>SnapshotKey := id', Image := Name i\<rparr>, s4)))))"

text \<open>\<^verbatim>\<open>withRemappedSnapshotBase\<close>, lines 148 to 199.\<close>

definition withRemappedSnapshotBase ::
  "'s Packages \<Rightarrow> string \<Rightarrow> image \<Rightarrow> IdentityMapping \<Rightarrow> bool \<Rightarrow> 's NewContainerOpts" where
  "withRemappedSnapshotBase pkgs id' i idmap readonly client c s =
     (case RootFS i of
        Inl err \<Rightarrow> (Some err, c, s)
      | Inr diffIDs \<Rightarrow>
          (let parent = ChainID pkgs diffIDs;
               key = usernsID parent idmap
           in case resolveSnapshotterName client (Snapshotter c) of
                (name, err) \<Rightarrow>
                  (let c1 = c\<lparr>Snapshotter := name\<rparr>
                   in case err of
                        Some e \<Rightarrow> (Some e, c1, s)
                      | None \<Rightarrow>
                          (case getSnapshotter client (Snapshotter c1) of
                             Inl e \<Rightarrow> (Some e, c1, s)
                           | Inr snapshotter \<Rightarrow>
                               (case Stat snapshotter key s of
                                  (Inl staterr, s1) \<Rightarrow>
                                    buildRemapped pkgs snapshotter id' i idmap readonly key parent c1 s1
                                | (Inr info, s1) \<Rightarrow>
                                    (case Prepare snapshotter id' key s1 of
                                       (Inr ms, s2) \<Rightarrow>
                                         (None, c1\<lparr>SnapshotKey := id', Image := Name i\<rparr>, s2)
                                     | (Inl e, s2) \<Rightarrow>
                                         (if \<not> IsNotFound e then (Some e, c1, s2)
                                          else buildRemapped pkgs snapshotter id' i idmap readonly
                                                 key parent c1 s2)))))))"

text \<open>The four public options, lines 101 to 146.\<close>

definition WithRemappedSnapshot ::
  "'s Packages \<Rightarrow> string \<Rightarrow> image \<Rightarrow> 32 word \<Rightarrow> 32 word \<Rightarrow> 's NewContainerOpts" where
  "WithRemappedSnapshot pkgs id' i uid gid =
     (let idmap = \<lparr>UIDMaps = [\<lparr>ContainerID = 0, HostID = uint uid, Size = 1\<rparr>],
                   GIDMaps = [\<lparr>ContainerID = 0, HostID = uint gid, Size = 1\<rparr>]\<rparr>
      in withRemappedSnapshotBase pkgs id' i idmap False)"

definition WithMultiRemappedSnapshot ::
  "'s Packages \<Rightarrow> string \<Rightarrow> image \<Rightarrow> IdentityMapping \<Rightarrow> 's NewContainerOpts" where
  "WithMultiRemappedSnapshot pkgs id' i idmap = withRemappedSnapshotBase pkgs id' i idmap False"

definition WithRemappedSnapshotView ::
  "'s Packages \<Rightarrow> string \<Rightarrow> image \<Rightarrow> 32 word \<Rightarrow> 32 word \<Rightarrow> 's NewContainerOpts" where
  "WithRemappedSnapshotView pkgs id' i uid gid =
     (let idmap = \<lparr>UIDMaps = [\<lparr>ContainerID = 0, HostID = uint uid, Size = 1\<rparr>],
                   GIDMaps = [\<lparr>ContainerID = 0, HostID = uint gid, Size = 1\<rparr>]\<rparr>
      in withRemappedSnapshotBase pkgs id' i idmap True)"

definition WithMultiRemappedSnapshotView ::
  "'s Packages \<Rightarrow> string \<Rightarrow> image \<Rightarrow> IdentityMapping \<Rightarrow> 's NewContainerOpts" where
  "WithMultiRemappedSnapshotView pkgs id' i idmap = withRemappedSnapshotBase pkgs id' i idmap True"

subsection \<open>The mount provider\<close>

text \<open>
  Modelled from the spec: the scoped-mount primitive of the Mount provider (section 6),
  which is not part of the files at hand. Given the mounts, it makes the content visible
  under a root for the duration of the callback and unmounts afterwards, whatever the
  callback returned. How the mounts become a root and a filesystem, how unmounting changes
  the state, and how an error of the callback is reported to the caller (handed through, or
  wrapped under a message) are parameters.
\<close>

definition scopedMount ::
  "(Mount list \<Rightarrow> 's \<Rightarrow> (error + string \<times> fsys) \<times> 's) \<Rightarrow> (string \<Rightarrow> fsys \<Rightarrow> 's \<Rightarrow> 's) \<Rightarrow>
   (string \<Rightarrow> error \<Rightarrow> error) \<Rightarrow>
   Mount list \<Rightarrow> (string \<Rightarrow> fsys \<Rightarrow> error option \<times> fsys) \<Rightarrow> 's \<Rightarrow> error option \<times> 's" where
  "scopedMount mountAll unmount report mounts f s =
     (case mountAll mounts s of
        (Inl err, s1) \<Rightarrow> (Some err, s1)
      | (Inr (root, fs), s1) \<Rightarrow>
          (case f root fs of
             (None, fs1) \<Rightarrow> (None, unmount root fs1 s1)
           | (Some err, fs1) \<Rightarrow> (Some (report root err), unmount root fs1 s1)))"

subsection \<open>Recording the store calls of a run\<close>

text \<open>
  Which store calls a run makes, in which order and with which outcome, is read from a
  log: \<open>traced\<close> wraps any snapshotter so that every call appends its name, its arguments
  and its error (\<open>None\<close> for success) to a list kept beside the store's state. The wrapped
  client and packages hand the log through unchanged.
\<close>

datatype call =
    CallStat string
  | CallPrepare string string
  | CallView string string
  | CallCommit string string
  | CallRemove string

type_synonym log = "(call \<times> error option) list"

fun err_of :: "error + 'a \<Rightarrow> error option" where
  "err_of (Inl e) = Some e"
| "err_of (Inr v) = None"

definition traced :: "'s Snapshotter \<Rightarrow> ('s \<times> log) Snapshotter" where
  "traced sn =
     \<lparr>Stat = (\<lambda>key (s, l). case Stat sn key s of
                (r, s1) \<Rightarrow> (r, s1, l @ [(CallStat key, err_of r)])),
      Prepare = (\<lambda>key parent (s, l). case Prepare sn key parent s of
                (r, s1) \<Rightarrow> (r, s1, l @ [(CallPrepare key parent, err_of r)])),
      View = (\<lambda>key parent (s, l). case View sn key parent s of
                (r, s1) \<Rightarrow> (r, s1, l @ [(CallView key parent, err_of r)])),
      Commit = (\<lambda>name key (s, l). case Commit sn name key s of
                (r, s1) \<Rightarrow> (r, s1, l @ [(CallCommit name key, r)])),
      Remove = (\<lambda>key (s, l). case Remove sn key s of
                (r, s1) \<Rightarrow> (r, s1, l @ [(CallRemove key, r)]))\<rparr>"

definition tracedClient :: "'s Client \<Rightarrow> ('s \<times> log) Client" where
  "tracedClient client =
     \<lparr>resolveSnapshotterName = resolveSnapshotterName client,
      getSnapshotter = (\<lambda>name. case getSnapshotter client name of
                          Inl e \<Rightarrow> Inl e
                        | Inr sn \<Rightarrow> Inr (traced sn))\<rparr>"

definition tracedPackages :: "'s Packages \<Rightarrow> ('s \<times> log) Packages" where
  "tracedPackages pkgs =
     \<lparr>ChainID = ChainID pkgs,
      WithTempMount = (\<lambda>mounts f (s, l). case WithTempMount pkgs mounts f s of
                         (r, s1) \<Rightarrow> (r, s1, l))\<rparr>"

text \<open>A run of the provisioning operation with its log, started on the empty log.\<close>

definition provision ::
  "'s Packages \<Rightarrow> string \<Rightarrow> image \<Rightarrow> IdentityMapping \<Rightarrow> bool \<Rightarrow> 's Client \<Rightarrow> Container \<Rightarrow> 's
   \<Rightarrow> error option \<times> Container \<times> 's \<times> log" where
  "provision pkgs id' i idmap readonly client c s =
     withRemappedSnapshotBase (tracedPackages pkgs) id' i idmap readonly (tracedClient client) c (s, [])"

subsection \<open>A snapshot store to run the operation against\<close>

text \<open>
  Modelled from the spec: the external Snapshot Store (sections 3 and 6), which is not part
  of the files at hand. A key is nonexistent, active, committed or a view; \<^verbatim>\<open>Prepare\<close> and
  \<^verbatim>\<open>View\<close> create an active snapshot or a view on a committed parent (or on no parent),
  \<^verbatim>\<open>Commit\<close> turns an active snapshot into a committed one under a new name, \<^verbatim>\<open>Remove\<close>
  deletes a key, and \<^verbatim>\<open>Stat\<close> tells "not found" from found. The store is shared: a schedule
  says what happens just before each call of this program, nothing (\<open>Quiet\<close>), a fault
  that makes the call fail without effect, or another actor committing an artifact.
\<close>

datatype event = Quiet | Fault error | RivalCommit string string

record world =
  snaps :: "string \<rightharpoonup> Info"
  events :: "event list"
  files :: fsys

definition arrive :: "world \<Rightarrow> event \<times> world" where
  "arrive w =
     (case events w of
        [] \<Rightarrow> (Quiet, w)
      | Quiet # evs \<Rightarrow> (Quiet, w\<lparr>events := evs\<rparr>)
      | Fault e # evs \<Rightarrow> (Fault e, w\<lparr>events := evs\<rparr>)
      | RivalCommit name parent # evs \<Rightarrow>
          (RivalCommit name parent,
           w\<lparr>snaps := (snaps w)(name \<mapsto> \<lparr>Kind = KindCommitted, Parent = parent\<rparr>),
             events := evs\<rparr>))"

definition create :: "Kind \<Rightarrow> string \<Rightarrow> string \<Rightarrow> world \<Rightarrow> (error + Mount list) \<times> world" where
  "create kind key parent w =
     (case snaps w key of
        Some info \<Rightarrow> (Inl (ErrAlreadyExists key), w)
      | None \<Rightarrow>
          (let made = w\<lparr>snaps := (snaps w)(key \<mapsto> \<lparr>Kind = kind, Parent = parent\<rparr>)\<rparr>;
               mounts = [\<lparr>Type = ''bind'', Source = key, Options = []\<rparr>]
           in if parent = [] then (Inr mounts, made)
              else (case snaps w parent of
                      None \<Rightarrow> (Inl (ErrNotFound parent), w)
                    | Some pinfo \<Rightarrow>
                        (if Kind pinfo = KindCommitted then (Inr mounts, made)
                         else (Inl (ErrOther ''parent is not a committed snapshot''), w)))))"

definition storeStat :: "string \<Rightarrow> world \<Rightarrow> (error + Info) \<times> world" where
  "storeStat key w =
     (case arrive w of
        (Fault e, w1) \<Rightarrow> (Inl e, w1)
      | (ev, w1) \<Rightarrow>
          (case snaps w1 key of
             None \<Rightarrow> (Inl (ErrNotFound key), w1)
           | Some info \<Rightarrow> (Inr info, w1)))"

definition storePrepare :: "string \<Rightarrow> string \<Rightarrow> world \<Rightarrow> (error + Mount list) \<times> world" where
  "storePrepare key parent w =
     (case arrive w of
        (Fault e, w1) \<Rightarrow> (Inl e, w1)
      | (ev, w1) \<Rightarrow> create KindActive key parent w1)"

definition storeView :: "string \<Rightarrow> string \<Rightarrow> world \<Rightarrow> (error + Mount list) \<times> world" where
  "storeView key parent w =
     (case arrive w of
        (Fault e, w1) \<Rightarrow> (Inl e, w1)
      | (ev, w1) \<Rightarrow> create KindView key parent w1)"

definition storeCommit :: "string \<Rightarrow> string \<Rightarrow> world \<Rightarrow> error option \<times> world" where
  "storeCommit name key w =
     (case arrive w of
        (Fault e, w1) \<Rightarrow> (Some e, w1)
      | (ev, w1) \<Rightarrow>
          (case snaps w1 key of
             None \<Rightarrow> (Some (ErrNotFound key), w1)
           | Some info \<Rightarrow>
               (if Kind info = KindActive
                then (case snaps w1 name of
                        Some other \<Rightarrow> (Some (ErrAlreadyExists name), w1)
                      | None \<Rightarrow>
                          (None, w1\<lparr>snaps := ((snaps w1)(key := None))(name \<mapsto>
                                   \<lparr>Kind = KindCommitted, Parent = Parent info\<rparr>)\<rparr>))
                else (Some (ErrOther ''snapshot is not active''), w1))))"

definition storeRemove :: "string \<Rightarrow> world \<Rightarrow> error option \<times> world" where
  "storeRemove key w =
     (case arrive w of
        (Fault e, w1) \<Rightarrow> (Some e, w1)
      | (ev, w1) \<Rightarrow>
          (case snaps w1 key of
             None \<Rightarrow> (Some (ErrNotFound key), w1)
           | Some info \<Rightarrow> (None, w1\<lparr>snaps := (snaps w1)(key := None)\<rparr>)))"

definition store :: "world Snapshotter" where
  "store = \<lparr>Stat = storeStat, Prepare = storePrepare, View = storeView,
            Commit = storeCommit, Remove = storeRemove\<rparr>"

text \<open>
  The client and the packages of the example runs: the empty snapshotter name resolves to
  \<open>overlayfs\<close>, the only snapshotter there is; the chain identity is taken to be the first
  diff ID, which it is for the one-layer image of the examples; and the temporary mount
  shows the world's files under \<open>/mnt\<close> and returns what the callback returns.
\<close>

definition exampleClient :: "world Client" where
  "exampleClient =
     \<lparr>resolveSnapshotterName = (\<lambda>name. (if name = [] then ''overlayfs'' else name, None)),
      getSnapshotter = (\<lambda>name. if name = ''overlayfs'' then Inr store
                               else Inl (ErrNotFound name))\<rparr>"

definition examplePackages :: "world Packages" where
  "examplePackages =
     \<lparr>ChainID = (\<lambda>diffIDs. case diffIDs of [] \<Rightarrow> [] | d # ds \<Rightarrow> d),
      WithTempMount = (\<lambda>mounts f w. case f ''/mnt'' (files w) of
                         (r, fs1) \<Rightarrow> (r, w\<lparr>files := fs1\<rparr>))\<rparr>"

text \<open>
  The same packages with a mount provider that wraps the error of its callback under a
  message naming the root, and the remap operation run with them on the tree whose walk
  fails.
\<close>

definition mountFiles :: "Mount list \<Rightarrow> world \<Rightarrow> (error + string \<times> fsys) \<times> world" where
  "mountFiles mounts w = (Inr (''/mnt'', files w), w)"

definition unmountFiles :: "string \<Rightarrow> fsys \<Rightarrow> world \<Rightarrow> world" where
  "unmountFiles root fs w = w\<lparr>files := fs\<rparr>"

definition callbackFailed :: "string \<Rightarrow> error \<Rightarrow> error" where
  "callbackFailed root err = ErrWrapped (''mount callback failed on '' @ root) err"

definition wrappingPackages :: "world Packages" where
  "wrappingPackages =
     \<lparr>ChainID = (\<lambda>diffIDs. case diffIDs of [] \<Rightarrow> [] | d # ds \<Rightarrow> d),
      WithTempMount = scopedMount mountFiles unmountFiles callbackFailed\<rparr>"

definition exampleImage :: image where
  "exampleImage = \<lparr>Name = ''docker.io/library/busybox:latest'', RootFS = Inr [''sha256:abc'']\<rparr>"

definition exampleContainer :: Container where
  "exampleContainer = \<lparr>ID = ''ctr1'', Image = [], Snapshotter = [], SnapshotKey = []\<rparr>"

definition rootOnly :: IdentityMapping where
  "rootOnly = \<lparr>UIDMaps = [\<lparr>ContainerID = 0, HostID = 1000, Size = 1\<rparr>],
               GIDMaps = [\<lparr>ContainerID = 0, HostID = 1000, Size = 1\<rparr>]\<rparr>"

text \<open>
  Two file trees under \<open>/mnt\<close>, with a file \<open>/etc/passwd\<close> outside the mount that the link
  \<open>/mnt/bin/sh\<close> points to: in \<open>rootFiles\<close> everything belongs to \<open>0:0\<close>; in \<open>mixedFiles\<close>
  the file \<open>/mnt/home\<close> belongs to \<open>5:5\<close>, which \<open>rootOnly\<close> does not map.
\<close>

definition exampleTree :: entry where
  "exampleTree =
     Directory [(''bin'', Directory [(''sh'', Symlink ''/etc/passwd'')]),
                (''home'', Regular),
                (''var'', Regular)]"

definition ownedBy :: "(string \<times> 32 word) list \<Rightarrow> string \<rightharpoonup> Stat_t" where
  "ownedBy xs = map_of (map (\<lambda>(path, n). (path, \<lparr>Uid = n, Gid = n\<rparr>)) xs)"

definition rootFiles :: fsys where
  "rootFiles =
     \<lparr>layout = [''/mnt'' \<mapsto> exampleTree],
      owners = ownedBy [(''/mnt'', 0), (''/mnt/bin'', 0), (''/mnt/bin/sh'', 0),
                        (''/mnt/home'', 0), (''/mnt/var'', 0), (''/etc/passwd'', 0)],
      refused = (\<lambda>path uid gid. None)\<rparr>"

definition mixedFiles :: fsys where
  "mixedFiles =
     \<lparr>layout = [''/mnt'' \<mapsto> exampleTree],
      owners = ownedBy [(''/mnt'', 0), (''/mnt/bin'', 0), (''/mnt/bin/sh'', 0),
                        (''/mnt/home'', 5), (''/mnt/var'', 0), (''/etc/passwd'', 0)],
      refused = (\<lambda>path uid gid. None)\<rparr>"

text \<open>
  A third tree, in which the link \<open>/mnt/l\<close> resolves to the file \<open>/mnt/a\<close> of the same
  tree, everything owned by \<open>0:0\<close>.
\<close>

definition linkedTree :: entry where
  "linkedTree = Directory [(''a'', Regular), (''l'', Symlink ''/mnt/a'')]"

definition linkedFiles :: fsys where
  "linkedFiles =
     \<lparr>layout = [''/mnt'' \<mapsto> linkedTree],
      owners = ownedBy [(''/mnt'', 0), (''/mnt/a'', 0), (''/mnt/l'', 0)],
      refused = (\<lambda>path uid gid. None)\<rparr>"

text \<open>The store holding the committed parent layer, with a schedule and files.\<close>

definition exampleWorld :: "event list \<Rightarrow> fsys \<Rightarrow> world" where
  "exampleWorld evs fs =
     \<lparr>snaps = [''sha256:abc'' \<mapsto> \<lparr>Kind = KindCommitted, Parent = []\<rparr>],
      events = evs, files = fs\<rparr>"

definition hitWorld :: world where
  "hitWorld =
     \<lparr>snaps = [''sha256:abc'' \<mapsto> \<lparr>Kind = KindCommitted, Parent = []\<rparr>,
               ''sha256:abc-1000-1000'' \<mapsto> \<lparr>Kind = KindCommitted, Parent = ''sha256:abc''\<rparr>],
      events = [], files = rootFiles\<rparr>"

text \<open>
  The example runs. \<open>hitViewRun\<close>: a read-only request that finds the artifact committed.
  \<open>failedWalkRun\<close>: a request whose walk meets the unmapped owner of \<open>/mnt/home\<close>.
  \<open>lostRaceRun\<close>: another actor commits the artifact between this run's probe and its
  \<^verbatim>\<open>Commit\<close>. \<open>faultyProbeRun\<close>: the probe fails with an I/O error. \<open>faultyPrepareRun\<close>: the
  probe finds nothing and the \<^verbatim>\<open>Prepare\<close> of the transient snapshot fails.
  \<open>unresolvedImageRun\<close>: the image's root filesystem cannot be resolved. \<open>wrappedRemap\<close> is
  not a whole run but the remap operation alone, with the wrapping mount provider.
\<close>

definition hitViewRun :: "error option \<times> Container \<times> world \<times> log" where
  "hitViewRun =
     provision examplePackages ''ctr2'' exampleImage rootOnly True exampleClient
       exampleContainer hitWorld"

definition failedWalkRun :: "error option \<times> Container \<times> world \<times> log" where
  "failedWalkRun =
     provision examplePackages ''ctr1'' exampleImage rootOnly False exampleClient
       exampleContainer (exampleWorld [] mixedFiles)"

definition lostRaceRun :: "error option \<times> Container \<times> world \<times> log" where
  "lostRaceRun =
     provision examplePackages ''ctr1'' exampleImage rootOnly False exampleClient
       exampleContainer
       (exampleWorld [Quiet, RivalCommit ''sha256:abc-1000-1000'' ''sha256:abc''] rootFiles)"

definition faultyProbeRun :: "error option \<times> Container \<times> world \<times> log" where
  "faultyProbeRun =
     provision examplePackages ''ctr1'' exampleImage rootOnly False exampleClient
       exampleContainer (exampleWorld [Fault (ErrOther ''input/output error'')] rootFiles)"

definition wrappedRemap :: "error option \<times> world" where
  "wrappedRemap =
     remapRootFS wrappingPackages
       [\<lparr>Type = ''bind'', Source = ''sha256:abc-1000-1000-remap'', Options = []\<rparr>]
       rootOnly (exampleWorld [] mixedFiles)"

definition unresolvedImageRun :: "error option \<times> Container \<times> world \<times> log" where
  "unresolvedImageRun =
     provision examplePackages ''ctr1''
       \<lparr>Name = ''docker.io/library/busybox:latest'', RootFS = Inl (ErrNotFound ''manifest'')\<rparr>
       rootOnly False exampleClient exampleContainer (exampleWorld [] rootFiles)"

definition faultyPrepareRun :: "error option \<times> Container \<times> world \<times> log" where
  "faultyPrepareRun =
     provision examplePackages ''ctr1'' exampleImage rootOnly False exampleClient
       exampleContainer
       (exampleWorld [Quiet, Fault (ErrOther ''input/output error'')] rootFiles)"

subsection \<open>Example mappings\<close>

text \<open>
  The one-range mapping that sends container \<open>0\<close> to the given host ids, and a mapping
  with the same root pair as \<open>rootOnly\<close> and a second range for the other users.
\<close>

definition singletonMapping :: "32 word \<Rightarrow> 32 word \<Rightarrow> IdentityMapping" where
  "singletonMapping uid gid =
     \<lparr>UIDMaps = [\<lparr>ContainerID = 0, HostID = uint uid, Size = 1\<rparr>],
      GIDMaps = [\<lparr>ContainerID = 0, HostID = uint gid, Size = 1\<rparr>]\<rparr>"

definition rootAndUsers :: IdentityMapping where
  "rootAndUsers =
     \<lparr>UIDMaps = [\<lparr>ContainerID = 0, HostID = 1000, Size = 1\<rparr>,
                 \<lparr>ContainerID = 1, HostID = 100000, Size = 65535\<rparr>],
      GIDMaps = [\<lparr>ContainerID = 0, HostID = 1000, Size = 1\<rparr>,
                 \<lparr>ContainerID = 1, HostID = 100000, Size = 65535\<rparr>]\<rparr>"

subsection \<open>The walk, entry by entry\<close>

text \<open>
  Section 4.2 of the spec read as a sequential procedure, to compare the code with: the
  entries of a tree in the order the walk reports them (a directory, then what is below
  it), and the remapping of that list one entry after the other, stopping at the first
  entry that fails. An entry fails when its metadata cannot be read (\<^verbatim>\<open>lstat\<close> fails, or it
  is a directory whose listing cannot be read), when the translator has no range for its
  owner, or when the kernel refuses the new owner; otherwise it gets the host-side owner.
\<close>

fun preorder :: "string \<Rightarrow> entry \<Rightarrow> (string \<times> entry) list"
  and preorder_names :: "string \<Rightarrow> (string \<times> entry) list \<Rightarrow> (string \<times> entry) list"
where
  "preorder path Regular = [(path, Regular)]"
| "preorder path (Symlink target) = [(path, Symlink target)]"
| "preorder path (Unreadable err) = [(path, Unreadable err)]"
| "preorder path (Directory es) = (path, Directory es) # preorder_names path es"
| "preorder_names path [] = []"
| "preorder_names path ((name, e) # rest) =
     preorder (Join path name) e @ preorder_names path rest"

definition entry_failure :: "IdentityMapping \<Rightarrow> string \<times> entry \<Rightarrow> fsys \<Rightarrow> error option" where
  "entry_failure idmap x fs =
     (case owners fs (fst x) of
        None \<Rightarrow> Some (ErrOther (''lstat '' @ fst x @ '': no such file or directory''))
      | Some st \<Rightarrow>
          (case snd x of
             Unreadable err \<Rightarrow> Some err
           | other \<Rightarrow>
               (case ToHost idmap \<lparr>UID = uint (Uid st), GID = uint (Gid st)\<rparr> of
                  Inl cerr \<Rightarrow> Some cerr
                | Inr h \<Rightarrow> refused fs (fst x) (UID h) (GID h))))"

definition reown :: "IdentityMapping \<Rightarrow> string \<Rightarrow> fsys \<Rightarrow> fsys" where
  "reown idmap path fs =
     (case owners fs path of
        None \<Rightarrow> fs
      | Some st \<Rightarrow>
          (case ToHost idmap \<lparr>UID = uint (Uid st), GID = uint (Gid st)\<rparr> of
             Inl err \<Rightarrow> fs
           | Inr h \<Rightarrow>
               fs\<lparr>owners := (owners fs)(path \<mapsto>
                  \<lparr>Uid = chown_id (UID h) (Uid st), Gid = chown_id (GID h) (Gid st)\<rparr>)\<rparr>))"

fun remap_in_order :: "IdentityMapping \<Rightarrow> (string \<times> entry) list \<Rightarrow> fsys \<Rightarrow> error option \<times> fsys" where
  "remap_in_order idmap [] fs = (None, fs)"
| "remap_in_order idmap (x # xs) fs =
     (case entry_failure idmap x fs of
        Some err \<Rightarrow> (Some err, fs)
      | None \<Rightarrow> remap_in_order idmap xs (reown idmap (fst x) fs))"


section \<open>Properties\<close>

subsection \<open>Evaluating the examples\<close>

lemmas splits = prod.splits sum.splits option.splits if_splits

lemma rootOnly_maps:
  "UIDMaps rootOnly = [\<lparr>ContainerID = 0, HostID = 1000, Size = 1\<rparr>]"
  "GIDMaps rootOnly = [\<lparr>ContainerID = 0, HostID = 1000, Size = 1\<rparr>]"
  by (simp_all add: rootOnly_def)

lemmas fs_defs = Walk_def lstat_def chown_def ToHost_def rootOnly_maps Lchown_def chown_id_def
  Join_def entry_failure_def reown_def exampleTree_def ownedBy_def rootFiles_def mixedFiles_def
  linkedTree_def linkedFiles_def Let_def

lemmas run_defs = provision_def withRemappedSnapshotBase_def buildRemapped_def remapRootFS_def
  exampleImage_def examplePackages_def tracedPackages_def tracedClient_def exampleClient_def
  exampleContainer_def traced_def store_def storeStat_def arrive_def exampleWorld_def
  hitWorld_def storePrepare_def storeView_def storeCommit_def storeRemove_def create_def

lemma rootOnly_RootPair: "RootPair rootOnly = \<lparr>UID = 1000, GID = 1000\<rparr>"
  by (simp add: RootPair_def ToHost_def rootOnly_def)

lemma rootAndUsers_RootPair: "RootPair rootAndUsers = \<lparr>UID = 1000, GID = 1000\<rparr>"
  by (simp add: RootPair_def ToHost_def rootAndUsers_def)

lemma FormatInt_1000: "FormatInt 1000 = ''1000''"
  by (simp add: FormatInt_def digit_def)

lemma example_key: "usernsID ''sha256:abc'' rootOnly = ''sha256:abc-1000-1000''"
  by (simp add: usernsID_def rootOnly_RootPair FormatInt_1000)

lemma triple_eq: "x = (fst x, fst (snd x), fst (snd (snd x)), snd (snd (snd x)))"
  by simp

subsection \<open>The traced operations\<close>

lemma traced_simps:
  "Stat (traced sn) key (s, l) =
     (case Stat sn key s of (r, s1) \<Rightarrow> (r, s1, l @ [(CallStat key, err_of r)]))"
  "Prepare (traced sn) key parent (s, l) =
     (case Prepare sn key parent s of (r, s1) \<Rightarrow> (r, s1, l @ [(CallPrepare key parent, err_of r)]))"
  "View (traced sn) key parent (s, l) =
     (case View sn key parent s of (r, s1) \<Rightarrow> (r, s1, l @ [(CallView key parent, err_of r)]))"
  "Commit (traced sn) name key (s, l) =
     (case Commit sn name key s of (r, s1) \<Rightarrow> (r, s1, l @ [(CallCommit name key, r)]))"
  "Remove (traced sn) key (s, l) =
     (case Remove sn key s of (r, s1) \<Rightarrow> (r, s1, l @ [(CallRemove key, r)]))"
  by (simp_all add: traced_def)

lemma tracedPackages_simps:
  "ChainID (tracedPackages pkgs) = ChainID pkgs"
  "remapRootFS (tracedPackages pkgs) mounts idmap (s, l) =
     (case remapRootFS pkgs mounts idmap s of (r, s1) \<Rightarrow> (r, s1, l))"
  by (simp_all add: tracedPackages_def remapRootFS_def)

lemma tracedClient_simps:
  "resolveSnapshotterName (tracedClient client) = resolveSnapshotterName client"
  "getSnapshotter (tracedClient client) name =
     (case getSnapshotter client name of Inl e \<Rightarrow> Inl e | Inr sn \<Rightarrow> Inr (traced sn))"
  by (simp_all add: tracedClient_def)

lemmas traced_defs = provision_def withRemappedSnapshotBase_def Let_def traced_simps
  tracedPackages_simps tracedClient_simps

text \<open>The log adds nothing to a run: without it, the run is the plain operation.\<close>

lemma build_untraced:
  "buildRemapped (tracedPackages pkgs) (traced sn) id' i idmap ro key parent c (s, l) = (r, c1, s1, l1) \<Longrightarrow>
   buildRemapped pkgs sn id' i idmap ro key parent c s = (r, c1, s1)"
  by (auto simp: buildRemapped_def traced_simps tracedPackages_simps split: splits)

lemma provision_untraced:
  "provision pkgs id' i idmap ro client c s = (r, c1, s1, l) \<Longrightarrow>
   withRemappedSnapshotBase pkgs id' i idmap ro client c s = (r, c1, s1)"
  by (auto simp: traced_defs dest: build_untraced split: splits)

subsection \<open>The cache key\<close>



text \<open>
  C9: the cache key depends on the parent and on the root pair of the mapping only: two
  mappings with the same root pair give the same key for the same parent, whatever their
  other ranges are. The witness compares \<open>rootOnly\<close> with \<open>rootAndUsers\<close>, which maps the
  container's other users as well.
\<close>

theorem cache_key_root_pair_only:
  assumes "RootPair m1 = RootPair m2"
  shows "usernsID parent m1 = usernsID parent m2"
  using assms by (simp add: usernsID_def)

theorem cache_key_root_pair_only_witness:
  "RootPair rootOnly = RootPair rootAndUsers \<and>
   UIDMaps rootOnly \<noteq> UIDMaps rootAndUsers \<and>
   usernsID ''sha256:abc'' rootOnly = usernsID ''sha256:abc'' rootAndUsers"
proof -
  have same: "RootPair rootOnly = RootPair rootAndUsers"
    by (simp add: rootOnly_RootPair rootAndUsers_RootPair)
  have differ: "UIDMaps rootOnly \<noteq> UIDMaps rootAndUsers"
    by (simp add: rootOnly_def rootAndUsers_def)
  from cache_key_root_pair_only [OF same, of "''sha256:abc''"] same differ
  show ?thesis by simp
qed

subsection \<open>The four options\<close>

text \<open>
  C10: \<^verbatim>\<open>WithRemappedSnapshot(id, i, uid, gid)\<close> is \<^verbatim>\<open>WithMultiRemappedSnapshot(id, i, m)\<close>
  for the one-range mapping \<open>m\<close> that sends container \<open>0\<close> to host \<open>uid\<close> and \<open>gid\<close>;
  \<^verbatim>\<open>WithRemappedSnapshotView\<close> is \<^verbatim>\<open>WithMultiRemappedSnapshotView\<close> for the same mapping; and
  the four are the base operation with the read-only flag off for the first pair and on
  for the views.
\<close>

theorem remapped_options_are_instances:
  "WithRemappedSnapshot pkgs id' i uid gid =
     WithMultiRemappedSnapshot pkgs id' i (singletonMapping uid gid) \<and>
   WithRemappedSnapshotView pkgs id' i uid gid =
     WithMultiRemappedSnapshotView pkgs id' i (singletonMapping uid gid) \<and>
   WithRemappedSnapshot pkgs id' i uid gid =
     withRemappedSnapshotBase pkgs id' i (singletonMapping uid gid) False \<and>
   WithMultiRemappedSnapshot pkgs id' i m = withRemappedSnapshotBase pkgs id' i m False \<and>
   WithRemappedSnapshotView pkgs id' i uid gid =
     withRemappedSnapshotBase pkgs id' i (singletonMapping uid gid) True \<and>
   WithMultiRemappedSnapshotView pkgs id' i m = withRemappedSnapshotBase pkgs id' i m True"
  by (simp add: WithRemappedSnapshot_def WithMultiRemappedSnapshot_def
      WithRemappedSnapshotView_def WithMultiRemappedSnapshotView_def singletonMapping_def)

theorem remapped_options_are_instances_witness:
  "singletonMapping 1000 1000 = rootOnly \<and>
   WithRemappedSnapshot examplePackages ''ctr1'' exampleImage 1000 1000 =
     WithMultiRemappedSnapshot examplePackages ''ctr1'' exampleImage rootOnly \<and>
   WithRemappedSnapshotView examplePackages ''ctr1'' exampleImage 1000 1000 =
     WithMultiRemappedSnapshotView examplePackages ''ctr1'' exampleImage rootOnly"
proof -
  have m: "singletonMapping 1000 1000 = rootOnly"
    by (simp add: singletonMapping_def rootOnly_def)
  from remapped_options_are_instances
         [of examplePackages "''ctr1''" exampleImage 1000 1000 rootOnly] m
  show ?thesis by simp
qed

subsection \<open>The walk\<close>

lemma remap_in_order_append:
  "remap_in_order idmap (xs @ ys) fs =
     (case remap_in_order idmap xs fs of
        (Some err, fs1) \<Rightarrow> (Some err, fs1)
      | (None, fs1) \<Rightarrow> remap_in_order idmap ys fs1)"
  by (induction xs arbitrary: fs) (auto split: option.splits)

lemma preorder_hd: "\<exists>rest. preorder path e = (path, e) # rest"
  by (cases e) auto

lemma lstat_fails_entry:
  "lstat path e fs = Inl err \<Longrightarrow> entry_failure idmap (path, e) fs = Some err"
  by (auto simp: lstat_def entry_failure_def split: option.splits)

text \<open>
  One call of \<^verbatim>\<open>chown\<close> on an entry whose metadata was read is one step of the sequential
  remapping: the entry's failure, the refusal of \<^verbatim>\<open>os.Lchown\<close> included, or the new owner.
\<close>

lemma chown_is_entry_step:
  "lstat path e fs = Inr info \<Longrightarrow> \<forall>err. e \<noteq> Unreadable err \<Longrightarrow>
   chown root idmap path (Some info) None fs =
     (case entry_failure idmap (path, e) fs of
        Some err \<Rightarrow> (Some err, fs)
      | None \<Rightarrow> (None, reown idmap path fs))"
  by (cases e)
     (auto simp: lstat_def chown_def entry_failure_def reown_def Lchown_def split: splits)

text \<open>
  The walk with the callback \<^verbatim>\<open>chown\<close> is the sequential remapping of the entries in
  preorder: by computation induction over \<open>walk\<close> and \<open>walk_names\<close>.
\<close>

lemma walk_is_remap_in_order:
  "lstat path e fs = Inr info \<Longrightarrow> walkFn = chown root idmap \<Longrightarrow>
     walk path e info walkFn fs = remap_in_order idmap (preorder path e) fs"
  "walkFn = chown root idmap \<Longrightarrow>
     walk_names path es walkFn fs = remap_in_order idmap (preorder_names path es) fs"
proof (induction path e info walkFn fs and path es walkFn fs rule: walk_walk_names.induct)
  case (1 path info walkFn fs)
  then show ?case
    by (simp add: chown_is_entry_step split: option.splits)
next
  case (2 path target info walkFn fs)
  then show ?case
    by (simp add: chown_is_entry_step split: option.splits)
next
  case (3 path err info walkFn fs)
  then show ?case
    by (auto simp: lstat_def chown_def entry_failure_def split: splits)
next
  case (4 path es info walkFn fs)
  then show ?case
    by (auto simp: chown_is_entry_step split: option.splits)
next
  case (5 path walkFn fs)
  then show ?case by simp
next
  case (6 path name e rest walkFn fs)
  show ?case
  proof (cases "lstat (Join path name) e fs")
    case (Inl err)
    obtain more where "preorder (Join path name) e = (Join path name, e) # more"
      using preorder_hd by blast
    with Inl 6 lstat_fails_entry [OF Inl, of idmap] show ?thesis
      by (simp add: chown_def)
  next
    case (Inr fileInfo)
    show ?thesis
    proof (cases "walk (Join path name) e fileInfo walkFn fs")
      case (Pair r fs1)
      with Inr 6 show ?thesis
        by (cases r) (auto simp: remap_in_order_append)
    qed
  qed
qed

lemma Walk_is_remap_in_order:
  assumes "layout fs root = Some t"
  shows "Walk root (chown root idmap) fs = remap_in_order idmap (preorder root t) fs"
proof (cases "lstat root t fs")
  case (Inl err)
  obtain more where "preorder root t = (root, t) # more"
    using preorder_hd by blast
  with Inl assms lstat_fails_entry [OF Inl, of idmap] show ?thesis
    by (simp add: Walk_def chown_def)
next
  case (Inr info)
  with assms show ?thesis
    by (simp add: Walk_def walk_is_remap_in_order(1))
qed











lemma walk_mixedFiles:
  "fst (Walk ''/mnt'' (chown ''/mnt'' rootOnly) mixedFiles) =
     Some (ErrOther ''container ID cannot be mapped to a host ID'')"
  by (simp add: fs_defs)

lemma wrappedRemap_eval:
  "fst wrappedRemap =
     Some (ErrWrapped ''mount callback failed on /mnt''
             (ErrOther ''container ID cannot be mapped to a host ID''))"
  "owners (files (snd wrappedRemap)) ''/mnt/bin/sh'' = Some \<lparr>Uid = 1000, Gid = 1000\<rparr>"
  "owners (files (snd wrappedRemap)) ''/mnt/home'' = Some \<lparr>Uid = 5, Gid = 5\<rparr>"
  "owners (files (snd wrappedRemap)) ''/mnt/var'' = Some \<lparr>Uid = 0, Gid = 0\<rparr>"
  by (simp_all add: wrappedRemap_def remapRootFS_def wrappingPackages_def scopedMount_def
      mountFiles_def unmountFiles_def callbackFailed_def exampleWorld_def fs_defs)




text \<open>
  C7, amended: the remapping stops at the first entry that fails. If the entries of the
  mounted tree, in the order of the walk, are \<open>before\<close>, then \<open>x\<close>, then \<open>after\<close>, every
  entry of \<open>before\<close> is remapped, and \<open>x\<close> fails in the state reached then (its metadata
  cannot be read, the translator has no range for its owner, or the change of owner is
  refused), then the walk returns the error of \<open>x\<close> and leaves the filesystem as it was
  when \<open>x\<close> was reached: \<open>x\<close> and \<open>after\<close> are untouched. The remap operation
  \<^verbatim>\<open>remapRootFS\<close> then fails, after the unmount, with that error as the mount provider
  reports the error of its callback: the error itself when the provider hands it through,
  a wrapping of it otherwise. There is no other result. The witness is the tree whose
  fourth entry \<open>/mnt/home\<close> has the unmapped owner \<open>5:5\<close>, under the wrapping provider.
\<close>

theorem remap_fails_with_first_error:
  assumes "WithTempMount pkgs = scopedMount mountAll unmount report"
    and "mountAll mounts s = (Inr (root, fs), s1)"
    and "layout fs root = Some t"
    and "preorder root t = before @ x # after"
    and "remap_in_order idmap before fs = (None, fs1)"
    and "entry_failure idmap x fs1 = Some err"
  shows "Walk root (chown root idmap) fs = (Some err, fs1) \<and>
         remapRootFS pkgs mounts idmap s = (Some (report root err), unmount root fs1 s1)"
proof -
  from assms(3-6) have "Walk root (chown root idmap) fs = (Some err, fs1)"
    by (simp add: Walk_is_remap_in_order remap_in_order_append)
  with assms(1,2) show ?thesis
    by (simp add: remapRootFS_def scopedMount_def)
qed

theorem remap_fails_with_first_error_witness:
  "fst (Walk ''/mnt'' (chown ''/mnt'' rootOnly) mixedFiles) =
     Some (ErrOther ''container ID cannot be mapped to a host ID'') \<and>
   fst wrappedRemap =
     Some (callbackFailed ''/mnt'' (ErrOther ''container ID cannot be mapped to a host ID'')) \<and>
   owners (files (snd wrappedRemap)) ''/mnt/bin/sh'' = Some \<lparr>Uid = 1000, Gid = 1000\<rparr> \<and>
   owners (files (snd wrappedRemap)) ''/mnt/home'' = Some \<lparr>Uid = 5, Gid = 5\<rparr> \<and>
   owners (files (snd wrappedRemap)) ''/mnt/var'' = Some \<lparr>Uid = 0, Gid = 0\<rparr>"
proof -
  define fs1 where
    "fs1 = reown rootOnly ''/mnt/bin/sh'' (reown rootOnly ''/mnt/bin'' (reown rootOnly ''/mnt'' mixedFiles))"
  have 0: "WithTempMount wrappingPackages = scopedMount mountFiles unmountFiles callbackFailed"
    by (simp add: wrappingPackages_def)
  have m: "mountFiles [\<lparr>Type = ''bind'', Source = ''sha256:abc-1000-1000-remap'', Options = []\<rparr>]
             (exampleWorld [] mixedFiles) = (Inr (''/mnt'', mixedFiles), exampleWorld [] mixedFiles)"
    by (simp add: mountFiles_def exampleWorld_def)
  have 1: "layout mixedFiles ''/mnt'' = Some exampleTree"
    by (simp add: mixedFiles_def)
  have 2: "preorder ''/mnt'' exampleTree =
      [(''/mnt'', exampleTree), (''/mnt/bin'', Directory [(''sh'', Symlink ''/etc/passwd'')]),
       (''/mnt/bin/sh'', Symlink ''/etc/passwd'')] @ (''/mnt/home'', Regular) # [(''/mnt/var'', Regular)]"
    by (simp add: exampleTree_def Join_def)
  have 3: "remap_in_order rootOnly
      [(''/mnt'', exampleTree), (''/mnt/bin'', Directory [(''sh'', Symlink ''/etc/passwd'')]),
       (''/mnt/bin/sh'', Symlink ''/etc/passwd'')] mixedFiles = (None, fs1)"
    by (simp add: fs1_def fs_defs)
  have 4: "entry_failure rootOnly (''/mnt/home'', Regular) fs1 =
      Some (ErrOther ''container ID cannot be mapped to a host ID'')"
    by (simp add: fs1_def fs_defs)
  from remap_fails_with_first_error [OF 0 m 1 2 3 4]
  show ?thesis
    by (simp add: wrappedRemap_def [symmetric] wrappedRemap_eval callbackFailed_def)
qed

text \<open>
  C7 as stated fails where it says that the remap operation returns the first error of
  the walk: with a mount provider that wraps the error of its callback, the walk returns
  the translator's error for \<open>/mnt/home\<close> and \<^verbatim>\<open>remapRootFS\<close> returns another error, the
  wrapping of it.
\<close>

theorem remap_returns_wrapped_error:
  "fst (Walk ''/mnt'' (chown ''/mnt'' rootOnly) mixedFiles) =
     Some (ErrOther ''container ID cannot be mapped to a host ID'') \<and>
   fst wrappedRemap =
     Some (ErrWrapped ''mount callback failed on /mnt''
             (ErrOther ''container ID cannot be mapped to a host ID'')) \<and>
   fst wrappedRemap \<noteq> fst (Walk ''/mnt'' (chown ''/mnt'' rootOnly) mixedFiles)"
  by (simp add: walk_mixedFiles wrappedRemap_eval)

subsection \<open>The runs of the provisioning operation\<close>

text \<open>What the build path (lines 176 to 197) adds to the log and does to the container.\<close>

lemma build_starts_with_Prepare:
  "buildRemapped (tracedPackages pkgs) (traced sn) id' i idmap ro key parent c (s, l) = (r, c1, s1, l1) \<Longrightarrow>
   \<exists>outcome more. l1 = l @ (CallPrepare (key @ ''-remap'') parent, outcome) # more"
  by (auto simp: buildRemapped_def traced_simps tracedPackages_simps split: splits)

lemma build_result_and_first_call:
  "buildRemapped (tracedPackages pkgs) (traced sn) id' i idmap ro key parent c (s, l) = (r, c1, s1, l1) \<Longrightarrow>
   (r, c1, s1) = buildRemapped pkgs sn id' i idmap ro key parent c s \<and>
   (\<exists>outcome more. l1 = l @ (CallPrepare (key @ ''-remap'') parent, outcome) # more)"
  using build_untraced [of pkgs sn id' i idmap ro key parent c s l r c1 s1 l1]
        build_starts_with_Prepare [of pkgs sn id' i idmap ro key parent c s l r c1 s1 l1]
  by simp

lemma build_commit_failure:
  "buildRemapped (tracedPackages pkgs) (traced sn) id' i idmap ro key parent c (s, l) = (r, c1, s1, l1) \<Longrightarrow>
   (CallCommit name k, Some err) \<in> set l1 \<Longrightarrow> (CallCommit name k, Some err) \<notin> set l \<Longrightarrow>
   r = Some err \<and> last l1 = (CallCommit name k, Some err) \<and> c1 = c"
  by (auto simp: buildRemapped_def traced_simps tracedPackages_simps split: splits)

lemma build_binding:
  "buildRemapped (tracedPackages pkgs) (traced sn) id' i idmap ro key parent c (s, l) = (r, c1, s1, l1) \<Longrightarrow>
   (case r of
      Some err \<Rightarrow> c1 = c
    | None \<Rightarrow> c1 = c\<lparr>SnapshotKey := id', Image := Name i\<rparr> \<and>
        last l1 = ((if ro then CallView id' key else CallPrepare id' key), None))"
  by (auto simp: buildRemapped_def traced_simps tracedPackages_simps split: splits)

lemma build_remove:
  "buildRemapped (tracedPackages pkgs) (traced sn) id' i idmap ro key parent c (s, l) = (r, c1, s1, l1) \<Longrightarrow>
   (CallRemove k, outcome) \<in> set l1 \<Longrightarrow> \<forall>out. (CallRemove k, out) \<notin> set l \<Longrightarrow>
   k = key \<and> r \<noteq> None \<and>
   l1 = l @ [(CallPrepare (key @ ''-remap'') parent, None), (CallRemove key, outcome)]"
  by (auto simp: buildRemapped_def traced_simps tracedPackages_simps split: splits)

lemma run_shape:
  "x = run \<Longrightarrow> snd (snd (snd x)) = l \<Longrightarrow> run = (fst x, fst (snd x), fst (snd (snd x)), l)"
  by auto

lemmas eval_defs = run_defs fs_defs example_key

lemma hitViewRun_eval:
  "fst hitViewRun = None"
  "fst (snd hitViewRun) =
     \<lparr>ID = ''ctr1'', Image = ''docker.io/library/busybox:latest'',
      Snapshotter = ''overlayfs'', SnapshotKey = ''ctr2''\<rparr>"
  "snd (snd (snd hitViewRun)) =
     [(CallStat ''sha256:abc-1000-1000'', None),
      (CallPrepare ''ctr2'' ''sha256:abc-1000-1000'', None)]"
  "snaps (fst (snd (snd hitViewRun))) ''ctr2'' =
     Some \<lparr>Kind = KindActive, Parent = ''sha256:abc-1000-1000''\<rparr>"
  by (simp_all add: hitViewRun_def eval_defs)

lemma failedWalkRun_eval:
  "fst failedWalkRun = Some (ErrOther ''container ID cannot be mapped to a host ID'')"
  "snd (snd (snd failedWalkRun)) =
     [(CallStat ''sha256:abc-1000-1000'', Some (ErrNotFound ''sha256:abc-1000-1000'')),
      (CallPrepare ''sha256:abc-1000-1000-remap'' ''sha256:abc'', None),
      (CallRemove ''sha256:abc-1000-1000'', Some (ErrNotFound ''sha256:abc-1000-1000''))]"
  "snaps (fst (snd (snd failedWalkRun))) ''sha256:abc-1000-1000-remap'' =
     Some \<lparr>Kind = KindActive, Parent = ''sha256:abc''\<rparr>"
  "snaps (fst (snd (snd failedWalkRun))) ''sha256:abc-1000-1000'' = None"
  by (simp_all add: failedWalkRun_def eval_defs)

lemma lostRaceRun_eval:
  "fst lostRaceRun = Some (ErrAlreadyExists ''sha256:abc-1000-1000'')"
  "fst (snd lostRaceRun) =
     \<lparr>ID = ''ctr1'', Image = [], Snapshotter = ''overlayfs'', SnapshotKey = []\<rparr>"
  "snd (snd (snd lostRaceRun)) =
     [(CallStat ''sha256:abc-1000-1000'', Some (ErrNotFound ''sha256:abc-1000-1000'')),
      (CallPrepare ''sha256:abc-1000-1000-remap'' ''sha256:abc'', None),
      (CallCommit ''sha256:abc-1000-1000'' ''sha256:abc-1000-1000-remap'',
         Some (ErrAlreadyExists ''sha256:abc-1000-1000''))]"
  "fst (storeStat ''sha256:abc-1000-1000'' (fst (snd (snd lostRaceRun)))) =
     Inr \<lparr>Kind = KindCommitted, Parent = ''sha256:abc''\<rparr>"
  by (simp_all add: lostRaceRun_def eval_defs)

lemma faultyProbeRun_eval:
  "fst faultyProbeRun = None"
  "fst (snd faultyProbeRun) =
     \<lparr>ID = ''ctr1'', Image = ''docker.io/library/busybox:latest'',
      Snapshotter = ''overlayfs'', SnapshotKey = ''ctr1''\<rparr>"
  "snd (snd (snd faultyProbeRun)) =
     [(CallStat ''sha256:abc-1000-1000'', Some (ErrOther ''input/output error'')),
      (CallPrepare ''sha256:abc-1000-1000-remap'' ''sha256:abc'', None),
      (CallCommit ''sha256:abc-1000-1000'' ''sha256:abc-1000-1000-remap'', None),
      (CallPrepare ''ctr1'' ''sha256:abc-1000-1000'', None)]"
  by (simp_all add: faultyProbeRun_def eval_defs)

lemma faultyPrepareRun_eval:
  "fst faultyPrepareRun = Some (ErrOther ''input/output error'')"
  "fst (snd faultyPrepareRun) =
     \<lparr>ID = ''ctr1'', Image = [], Snapshotter = ''overlayfs'', SnapshotKey = []\<rparr>"
  "snd (snd (snd faultyPrepareRun)) =
     [(CallStat ''sha256:abc-1000-1000'', Some (ErrNotFound ''sha256:abc-1000-1000'')),
      (CallPrepare ''sha256:abc-1000-1000-remap'' ''sha256:abc'',
         Some (ErrOther ''input/output error''))]"
  by (simp_all add: faultyPrepareRun_def eval_defs)

lemma unresolvedImageRun_eval:
  "fst unresolvedImageRun = Some (ErrNotFound ''manifest'')"
  "fst (snd unresolvedImageRun) =
     \<lparr>ID = ''ctr1'', Image = [], Snapshotter = [], SnapshotKey = []\<rparr>"
  "snd (snd (snd unresolvedImageRun)) = []"
  by (simp_all add: unresolvedImageRun_def eval_defs)

text \<open>
  C1, as the code has it: when the probe finds the artifact, the next store call is
  \<^verbatim>\<open>Prepare(target, key)\<close> whatever the read-only flag says, and when that call succeeds it
  is the last one and the run succeeds. \<^verbatim>\<open>View\<close> is called on the build path only (lines 187
  to 191). The run \<open>hitViewRun\<close> asks for a read-only snapshot and finds the artifact: it
  calls \<^verbatim>\<open>Stat\<close> and \<^verbatim>\<open>Prepare\<close>, and the target \<open>ctr2\<close> is an active snapshot, not a view.
\<close>

theorem cache_hit_always_prepares:
  assumes "provision pkgs id' i idmap ro client c s = (r, c1, s1, (CallStat key, None) # rest)"
  shows "\<exists>outcome more. rest = (CallPrepare id' key, outcome) # more \<and>
           (outcome = None \<longrightarrow> more = [] \<and> r = None)"
  using assms
  by (auto simp: traced_defs dest!: build_starts_with_Prepare split: splits)

theorem cache_hit_always_prepares_witness:
  "snd (snd (snd hitViewRun)) =
     [(CallStat ''sha256:abc-1000-1000'', None),
      (CallPrepare ''ctr2'' ''sha256:abc-1000-1000'', None)] \<and>
   fst hitViewRun = None \<and>
   snaps (fst (snd (snd hitViewRun))) ''ctr2'' =
     Some \<lparr>Kind = KindActive, Parent = ''sha256:abc-1000-1000''\<rparr>"
  using cache_hit_always_prepares [OF run_shape [OF hitViewRun_def hitViewRun_eval(3)]]
  by (simp add: hitViewRun_eval)

text \<open>
  C2, as the code has it: the only \<^verbatim>\<open>Remove\<close> of a run is the cleanup of line 181, and its
  key is the cache key. It follows the successful \<^verbatim>\<open>Prepare\<close> of the transient snapshot
  \<open>key-remap\<close>, it is the last call of the run, the run fails, and no call removes
  \<open>key-remap\<close>. In the run \<open>failedWalkRun\<close> the walk fails on an unmapped owner: the
  cleanup asks the store to remove the cache key, which does not exist, and the transient
  snapshot is still active afterwards.
\<close>

theorem cleanup_removes_cache_key:
  assumes "provision pkgs id' i idmap ro client c s = (r, c1, s1, l)"
    and "(CallRemove k, outcome) \<in> set l"
  shows "\<exists>diffIDs before. RootFS i = Inr diffIDs \<and> k = usernsID (ChainID pkgs diffIDs) idmap \<and>
           r \<noteq> None \<and>
           l = before @ [(CallPrepare (k @ ''-remap'') (ChainID pkgs diffIDs), None),
                         (CallRemove k, outcome)] \<and>
           (\<forall>out. (CallRemove (k @ ''-remap''), out) \<notin> set l)"
  using assms
  by (auto simp: traced_defs dest!: build_remove split: splits)

theorem cleanup_removes_cache_key_witness:
  "fst failedWalkRun = Some (ErrOther ''container ID cannot be mapped to a host ID'') \<and>
   snd (snd (snd failedWalkRun)) =
     [(CallStat ''sha256:abc-1000-1000'', Some (ErrNotFound ''sha256:abc-1000-1000'')),
      (CallPrepare ''sha256:abc-1000-1000-remap'' ''sha256:abc'', None),
      (CallRemove ''sha256:abc-1000-1000'', Some (ErrNotFound ''sha256:abc-1000-1000''))] \<and>
   snaps (fst (snd (snd failedWalkRun))) ''sha256:abc-1000-1000-remap'' =
     Some \<lparr>Kind = KindActive, Parent = ''sha256:abc''\<rparr> \<and>
   snaps (fst (snd (snd failedWalkRun))) ''sha256:abc-1000-1000'' = None"
proof -
  have removed:
    "(CallRemove ''sha256:abc-1000-1000'', Some (ErrNotFound ''sha256:abc-1000-1000''))
       \<in> set (snd (snd (snd failedWalkRun)))"
    by (simp add: failedWalkRun_eval)
  from cleanup_removes_cache_key [OF run_shape [OF failedWalkRun_def refl] removed]
  show ?thesis
    by (simp add: failedWalkRun_eval)
qed

text \<open>
  C3, amended: a run in which \<^verbatim>\<open>Commit\<close> fails returns the commit error, and the failed
  \<^verbatim>\<open>Commit\<close> is the last store call of the run: no existence check follows it, whether or
  not the artifact exists under the key by then. The container's \<^verbatim>\<open>SnapshotKey\<close> and
  \<^verbatim>\<open>Image\<close> are as before.
\<close>

theorem commit_failure_is_fatal:
  assumes "provision pkgs id' i idmap ro client c s = (r, c1, s1, l)"
    and "(CallCommit name k, Some err) \<in> set l"
  shows "r = Some err \<and> last l = (CallCommit name k, Some err) \<and>
         SnapshotKey c1 = SnapshotKey c \<and> Image c1 = Image c"
  using assms
  by (auto simp: traced_defs dest!: build_commit_failure split: splits)

theorem commit_failure_is_fatal_witness:
  "fst lostRaceRun = Some (ErrAlreadyExists ''sha256:abc-1000-1000'') \<and>
   last (snd (snd (snd lostRaceRun))) =
     (CallCommit ''sha256:abc-1000-1000'' ''sha256:abc-1000-1000-remap'',
      Some (ErrAlreadyExists ''sha256:abc-1000-1000'')) \<and>
   SnapshotKey (fst (snd lostRaceRun)) = SnapshotKey exampleContainer \<and>
   Image (fst (snd lostRaceRun)) = Image exampleContainer"
proof -
  have failed:
    "(CallCommit ''sha256:abc-1000-1000'' ''sha256:abc-1000-1000-remap'',
        Some (ErrAlreadyExists ''sha256:abc-1000-1000''))
       \<in> set (snd (snd (snd lostRaceRun)))"
    by (simp add: lostRaceRun_eval)
  from commit_failure_is_fatal [OF run_shape [OF lostRaceRun_def refl] failed]
  show ?thesis by simp
qed

text \<open>
  C3 as stated fails: in \<open>lostRaceRun\<close> another actor commits the artifact after this run's
  probe, so this run's \<^verbatim>\<open>Commit\<close> fails with "already exists"; an existence check on the
  store the run leaves behind finds the committed artifact, and yet the run returns the
  commit error.
\<close>

theorem commit_failure_with_artifact_present:
  "fst lostRaceRun = Some (ErrAlreadyExists ''sha256:abc-1000-1000'') \<and>
   snd (snd (snd lostRaceRun)) =
     [(CallStat ''sha256:abc-1000-1000'', Some (ErrNotFound ''sha256:abc-1000-1000'')),
      (CallPrepare ''sha256:abc-1000-1000-remap'' ''sha256:abc'', None),
      (CallCommit ''sha256:abc-1000-1000'' ''sha256:abc-1000-1000-remap'',
         Some (ErrAlreadyExists ''sha256:abc-1000-1000''))] \<and>
   fst (storeStat ''sha256:abc-1000-1000'' (fst (snd (snd lostRaceRun)))) =
     Inr \<lparr>Kind = KindCommitted, Parent = ''sha256:abc''\<rparr>"
  by (simp add: lostRaceRun_eval)

text \<open>
  C4, amended: every error of the existence probe, "not found" or any other, leads to the
  build path, and the error of the probe is dropped. When the probe of the key fails, with
  whatever error \<open>e\<close>, the result of the run (error, container and store) is the result
  of the build path of lines 176 to 197, started in the state the probe left, with the
  container that holds the resolved snapshotter name; the build path does not take \<open>e\<close>.
  The next store call of the run is the \<^verbatim>\<open>Prepare\<close> of the transient snapshot \<open>key-remap\<close>
  on the parent.
\<close>

theorem probe_error_starts_build:
  assumes "provision pkgs id' i idmap ro client c s = (r, c1, s1, (CallStat key, Some e) # rest)"
  shows "\<exists>diffIDs name sn sp outcome more.
           RootFS i = Inr diffIDs \<and>
           key = usernsID (ChainID pkgs diffIDs) idmap \<and>
           resolveSnapshotterName client (Snapshotter c) = (name, None) \<and>
           getSnapshotter client name = Inr sn \<and>
           Stat sn key s = (Inl e, sp) \<and>
           (r, c1, s1) =
             buildRemapped pkgs sn id' i idmap ro key (ChainID pkgs diffIDs)
               (c\<lparr>Snapshotter := name\<rparr>) sp \<and>
           rest = (CallPrepare (key @ ''-remap'') (ChainID pkgs diffIDs), outcome) # more"
  using assms
  by (auto simp: traced_defs dest!: build_result_and_first_call split: splits)

theorem probe_error_starts_build_witness:
  "hd (snd (snd (snd faultyProbeRun))) =
     (CallStat ''sha256:abc-1000-1000'', Some (ErrOther ''input/output error'')) \<and>
   \<not> IsNotFound (ErrOther ''input/output error'') \<and>
   hd (tl (snd (snd (snd faultyProbeRun)))) =
     (CallPrepare ''sha256:abc-1000-1000-remap'' ''sha256:abc'', None) \<and>
   fst faultyProbeRun = None"
  using probe_error_starts_build [OF run_shape [OF faultyProbeRun_def faultyProbeRun_eval(3)]]
  by (simp add: faultyProbeRun_eval)

text \<open>
  C4 as stated fails: in \<open>faultyProbeRun\<close> the probe fails with an I/O error, which is not
  "not found"; the run builds and commits the artifact all the same, prepares the target
  and returns success, so the error of the probe is not propagated.
\<close>

theorem probe_io_error_is_not_fatal:
  "snd (snd (snd faultyProbeRun)) =
     [(CallStat ''sha256:abc-1000-1000'', Some (ErrOther ''input/output error'')),
      (CallPrepare ''sha256:abc-1000-1000-remap'' ''sha256:abc'', None),
      (CallCommit ''sha256:abc-1000-1000'' ''sha256:abc-1000-1000-remap'', None),
      (CallPrepare ''ctr1'' ''sha256:abc-1000-1000'', None)] \<and>
   \<not> IsNotFound (ErrOther ''input/output error'') \<and>
   fst faultyProbeRun = None"
  by (simp add: faultyProbeRun_eval)

text \<open>
  C8, amended: the fields \<^verbatim>\<open>SnapshotKey\<close> and \<^verbatim>\<open>Image\<close> are written only after the target
  snapshot has been provisioned from the committed artifact: a run that succeeds ends with
  a successful \<^verbatim>\<open>Prepare\<close> or \<^verbatim>\<open>View\<close> of the target on the cache key and sets both fields.
  A run that fails leaves every field but \<^verbatim>\<open>Snapshotter\<close> as it was. The field
  \<^verbatim>\<open>Snapshotter\<close> is as it was too when the image's root filesystem cannot be resolved
  (lines 150 to 153 return before line 159); on every other path, failing or not, it holds
  the name that \<^verbatim>\<open>resolveSnapshotterName\<close> returned for the old value of the field.
\<close>

theorem binding_written_after_provisioning:
  assumes "provision pkgs id' i idmap ro client c s = (r, c1, s1, l)"
  shows "(case r of
            Some err \<Rightarrow>
              (case RootFS i of
                 Inl e \<Rightarrow> c1 = c
               | Inr diffIDs \<Rightarrow>
                   c1 = c\<lparr>Snapshotter := fst (resolveSnapshotterName client (Snapshotter c))\<rparr>)
          | None \<Rightarrow>
              c1 = c\<lparr>Snapshotter := fst (resolveSnapshotterName client (Snapshotter c)),
                     SnapshotKey := id', Image := Name i\<rparr> \<and>
              (\<exists>diffIDs. RootFS i = Inr diffIDs \<and>
                 (last l = (CallPrepare id' (usernsID (ChainID pkgs diffIDs) idmap), None) \<or>
                  last l = (CallView id' (usernsID (ChainID pkgs diffIDs) idmap), None))))"
  using assms
  by (auto simp: traced_defs dest!: build_binding split: splits)

theorem binding_written_after_provisioning_witness:
  "fst unresolvedImageRun = Some (ErrNotFound ''manifest'') \<and>
   fst (snd unresolvedImageRun) = exampleContainer \<and>
   fst faultyPrepareRun = Some (ErrOther ''input/output error'') \<and>
   fst (snd faultyPrepareRun) = exampleContainer\<lparr>Snapshotter := ''overlayfs''\<rparr> \<and>
   fst (resolveSnapshotterName exampleClient (Snapshotter exampleContainer)) = ''overlayfs'' \<and>
   fst faultyProbeRun = None \<and>
   fst (snd faultyProbeRun) =
     exampleContainer\<lparr>Snapshotter := ''overlayfs'', SnapshotKey := ''ctr1'',
       Image := Name exampleImage\<rparr> \<and>
   last (snd (snd (snd faultyProbeRun))) = (CallPrepare ''ctr1'' ''sha256:abc-1000-1000'', None)"
  using binding_written_after_provisioning [OF run_shape [OF unresolvedImageRun_def refl]]
        binding_written_after_provisioning [OF run_shape [OF faultyPrepareRun_def refl]]
        binding_written_after_provisioning [OF run_shape [OF faultyProbeRun_def refl]]
  by (simp add: unresolvedImageRun_eval faultyPrepareRun_eval faultyProbeRun_eval
      exampleContainer_def exampleImage_def exampleClient_def)

text \<open>
  C8 as stated fails: \<open>faultyPrepareRun\<close> fails at the \<^verbatim>\<open>Prepare\<close> of the transient
  snapshot, and the container it leaves behind differs from the one it was given: line 159
  has stored the resolved snapshotter name \<open>overlayfs\<close> in it.
\<close>

theorem failed_run_changes_container:
  "fst faultyPrepareRun = Some (ErrOther ''input/output error'') \<and>
   fst (snd faultyPrepareRun) = exampleContainer\<lparr>Snapshotter := ''overlayfs''\<rparr> \<and>
   fst (snd faultyPrepareRun) \<noteq> exampleContainer"
  by (simp add: faultyPrepareRun_eval exampleContainer_def)

end
